theory Spec2Isabelle
  imports Main
begin

unbundle bit_operations_syntax

section \<open>The LS-8 emulator of cpu.py\<close>

text \<open>
  The machine of \<^verbatim>\<open>class CPU\<close>. Python integers are unbounded, so memory cells,
  registers, the program counter and the flags are all \<open>int\<close>. Lists are indexed the way
  Python indexes them: a negative index counts from the end and an index out of range
  raises \<^verbatim>\<open>IndexError\<close>. What \<^verbatim>\<open>print\<close> writes is collected, one line per element,
  in the field \<open>printed\<close>.
\<close>

subsection \<open>Python list indexing\<close>

definition py_index :: "'a list \<Rightarrow> int \<Rightarrow> nat option" where
  "py_index xs i =
     (let n = int (length xs)
      in if 0 \<le> i \<and> i < n then Some (nat i)
         else if - n \<le> i \<and> i < 0 then Some (nat (n + i))
         else None)"

definition py_get :: "'a list \<Rightarrow> int \<Rightarrow> 'a option" where
  "py_get xs i = (case py_index xs i of None \<Rightarrow> None | Some k \<Rightarrow> Some (xs ! k))"

definition py_set :: "'a list \<Rightarrow> int \<Rightarrow> 'a \<Rightarrow> 'a list option" where
  "py_set xs i v = (case py_index xs i of None \<Rightarrow> None | Some k \<Rightarrow> Some (xs[k := v]))"

subsection \<open>Printing an integer\<close>

fun dec_digits :: "nat \<Rightarrow> string" where
  "dec_digits n =
     (if n < 10 then [''0123456789'' ! n]
      else dec_digits (n div 10) @ [''0123456789'' ! (n mod 10)])"

declare dec_digits.simps [simp del]

definition py_str :: "int \<Rightarrow> string" where
  "py_str i = (if i < 0 then CHR ''-'' # dec_digits (nat (- i)) else dec_digits (nat i))"

subsection \<open>Machine state\<close>

record cpu =
  ram :: "int list"
  registers :: "int list"
  pc :: int
  ir :: int
  mar :: int
  mdr :: int
  fl :: int
  printed :: "string list"

text \<open>
  How a handler stops: \<^verbatim>\<open>sys.exit()\<close> raises \<open>SystemExit\<close>; a list access out of range
  raises \<open>IndexError\<close>; the lookup of an opcode missing from \<^verbatim>\<open>branch_table\<close> raises
  \<open>KeyError\<close>; the ALU raises \<open>UnsupportedALUOperation\<close> for an operation it does not know.
  The state at the moment of the raise is kept beside the reason.
\<close>

datatype stop = SystemExit | IndexError | KeyError | UnsupportedALUOperation

type_synonym result = "(stop \<times> cpu) + cpu"

definition or_raise :: "cpu \<Rightarrow> 'a option \<Rightarrow> ('a \<Rightarrow> result) \<Rightarrow> result" where
  "or_raise s x k = (case x of None \<Rightarrow> Inl (IndexError, s) | Some v \<Rightarrow> k v)"

subsection \<open>The opcode table\<close>

definition HLT :: int where "HLT = 0x01"
definition LDI :: int where "LDI = 0x02"
definition PUSH :: int where "PUSH = 0x05"
definition POP :: int where "POP = 0x06"
definition PRN :: int where "PRN = 0x07"
definition CALL :: int where "CALL = 0x10"
definition RET :: int where "RET = 0x11"
definition JMP :: int where "JMP = 0x14"
definition JEQ :: int where "JEQ = 0x15"
definition JNE :: int where "JNE = 0x16"
definition CMP :: int where "CMP = 0x27"
definition ADD :: int where "ADD = 0x20"
definition MUL :: int where "MUL = 0x22"

subsection \<open>Construction, memory and the stack pointer\<close>

definition cpu_init :: cpu where
  "cpu_init =
     \<lparr> ram = replicate 255 0, registers = (replicate 8 0)[7 := 0xF4],
       pc = 0, ir = 0, mar = 0, mdr = 0, fl = 0, printed = [] \<rparr>"

definition ram_read :: "cpu \<Rightarrow> int \<Rightarrow> int option" where
  "ram_read s a = py_get (ram s) a"

definition ram_write :: "cpu \<Rightarrow> int \<Rightarrow> int \<Rightarrow> cpu option" where
  "ram_write s a v = map_option (\<lambda>m. s\<lparr>ram := m\<rparr>) (py_set (ram s) a v)"

definition reg_get :: "cpu \<Rightarrow> int \<Rightarrow> int option" where
  "reg_get s i = py_get (registers s) i"

definition reg_set :: "cpu \<Rightarrow> int \<Rightarrow> int \<Rightarrow> cpu option" where
  "reg_set s i v = map_option (\<lambda>r. s\<lparr>registers := r\<rparr>) (py_set (registers s) i v)"

definition sp_get :: "cpu \<Rightarrow> int option" where
  "sp_get s = reg_get s 7"

definition sp_set :: "cpu \<Rightarrow> int \<Rightarrow> cpu option" where
  "sp_set s v = reg_set s 7 v"

text \<open>
  The last loop of \<^verbatim>\<open>load\<close>, which copies the parsed program into memory from address 0.
  Reading and parsing the file is outside the machine; the parsed bytes are the argument.
\<close>

fun load_ram :: "cpu \<Rightarrow> int \<Rightarrow> int list \<Rightarrow> result" where
  "load_ram s address [] = Inr s"
| "load_ram s address (instruction # program) =
     or_raise s (ram_write s address instruction)
       (\<lambda>s'. load_ram s' (address + 1) program)"

subsection \<open>The ALU\<close>

definition alu :: "cpu \<Rightarrow> string \<Rightarrow> int \<Rightarrow> int \<Rightarrow> result" where
  "alu s op reg_a reg_b =
     (if op = ''ADD'' then
        or_raise s (reg_get s reg_a) (\<lambda>va.
        or_raise s (reg_get s reg_b) (\<lambda>vb.
        or_raise s (reg_set s reg_a (va + vb)) Inr))
      else if op = ''CMP'' then
        or_raise s (reg_get s reg_a) (\<lambda>va.
        or_raise s (reg_get s reg_b) (\<lambda>vb.
        let s1 = (if va = vb then s\<lparr>fl := fl s OR 0x01\<rparr> else s\<lparr>fl := fl s AND NOT 0x01\<rparr>)
        in
        or_raise s1 (reg_get s1 reg_a) (\<lambda>va.
        or_raise s1 (reg_get s1 reg_b) (\<lambda>vb.
        let s2 = (if va > vb then s1\<lparr>fl := fl s1 OR 0x02\<rparr> else s1\<lparr>fl := fl s1 AND NOT 0x02\<rparr>)
        in
        or_raise s2 (reg_get s2 reg_a) (\<lambda>va.
        or_raise s2 (reg_get s2 reg_b) (\<lambda>vb.
        Inr (if va < vb then s2\<lparr>fl := fl s2 OR 0x04\<rparr> else s2\<lparr>fl := fl s2 AND NOT 0x04\<rparr>)))))))
      else Inl (UnsupportedALUOperation, s))"

subsection \<open>Instruction handlers\<close>

definition hlt :: "cpu \<Rightarrow> result" where
  "hlt s = Inl (SystemExit, s)"

definition ldi :: "cpu \<Rightarrow> result" where
  "ldi s =
     or_raise s (ram_read s (pc s + 2)) (\<lambda>v.
     or_raise s (ram_read s (pc s + 1)) (\<lambda>r.
     or_raise s (reg_set s (r AND 0x07) v) Inr))"

definition push :: "cpu \<Rightarrow> result" where
  "push s =
     or_raise s (sp_get s) (\<lambda>sp0.
     or_raise s (sp_set s (sp0 - 1)) (\<lambda>s1.
     or_raise s1 (sp_get s1) (\<lambda>sp1.
     or_raise s1 (sp_set s1 (sp1 AND 0xFF)) (\<lambda>s2.
     or_raise s2 (ram_read s2 (pc s2 + 1)) (\<lambda>reg_num.
     or_raise s2 (reg_get s2 reg_num) (\<lambda>v.
     or_raise s2 (sp_get s2) (\<lambda>address_to_push_to.
     or_raise s2 (ram_write s2 address_to_push_to v) Inr)))))))"

definition pop :: "cpu \<Rightarrow> result" where
  "pop s =
     or_raise s (sp_get s) (\<lambda>address_to_pop_from.
     or_raise s (ram_read s address_to_pop_from) (\<lambda>v.
     or_raise s (ram_read s (pc s + 1)) (\<lambda>reg_num.
     or_raise s (reg_set s reg_num v) (\<lambda>s1.
     or_raise s1 (sp_get s1) (\<lambda>sp1.
     or_raise s1 (sp_set s1 (sp1 + 1)) Inr)))))"

definition prn :: "cpu \<Rightarrow> result" where
  "prn s =
     or_raise s (ram_read s (pc s + 1)) (\<lambda>r.
     or_raise s (reg_get s (r AND 0x07)) (\<lambda>v.
     Inr (s\<lparr>printed := printed s @ [py_str v]\<rparr>)))"

definition call :: "cpu \<Rightarrow> result" where
  "call s =
     (let return_addr = pc s + 2 in
      or_raise s (sp_get s) (\<lambda>sp0.
      or_raise s (sp_set s (sp0 - 1)) (\<lambda>s1.
      or_raise s1 (sp_get s1) (\<lambda>address_to_push_to.
      or_raise s1 (ram_write s1 address_to_push_to return_addr) (\<lambda>s2.
      or_raise s2 (ram_read s2 (pc s2 + 1)) (\<lambda>reg_num.
      or_raise s2 (reg_get s2 reg_num) (\<lambda>subroutine_addr.
      Inr (s2\<lparr>pc := subroutine_addr\<rparr>))))))))"

definition ret :: "cpu \<Rightarrow> result" where
  "ret s =
     or_raise s (sp_get s) (\<lambda>address_to_pop_from.
     or_raise s (ram_read s address_to_pop_from) (\<lambda>return_addr.
     or_raise s (sp_get s) (\<lambda>sp0.
     or_raise s (sp_set s (sp0 + 1)) (\<lambda>s1.
     Inr (s1\<lparr>pc := return_addr\<rparr>)))))"

definition jmp :: "cpu \<Rightarrow> result" where
  "jmp s =
     or_raise s (ram_read s (pc s + 1)) (\<lambda>reg_num.
     or_raise s (reg_get s reg_num) (\<lambda>stored_addr.
     Inr (s\<lparr>pc := stored_addr\<rparr>)))"

text \<open>
  In Python \<^verbatim>\<open>&\<close> binds tighter than \<^verbatim>\<open>==\<close>, and \<^verbatim>\<open>True\<close> and \<^verbatim>\<open>False\<close> compare
  equal to 1 and 0: the tests are \<^verbatim>\<open>(fl & 1) == 1\<close> and \<^verbatim>\<open>(fl & 1) == 0\<close>.
\<close>

definition jeq :: "cpu \<Rightarrow> result" where
  "jeq s =
     (if fl s AND 0x01 = 1 then
        or_raise s (ram_read s (pc s + 1)) (\<lambda>reg_num.
        or_raise s (reg_get s reg_num) (\<lambda>stored_addr.
        Inr (s\<lparr>pc := stored_addr\<rparr>)))
      else Inr s)"

definition jne :: "cpu \<Rightarrow> result" where
  "jne s =
     (if fl s AND 0x01 = 0 then
        or_raise s (ram_read s (pc s + 1)) (\<lambda>reg_num.
        or_raise s (reg_get s reg_num) (\<lambda>stored_addr.
        Inr (s\<lparr>pc := stored_addr\<rparr>)))
      else Inr s)"

definition cmp :: "cpu \<Rightarrow> result" where
  "cmp s =
     or_raise s (ram_read s (pc s + 1)) (\<lambda>reg_a.
     or_raise s (ram_read s (pc s + 2)) (\<lambda>reg_b.
     alu s ''CMP'' reg_a reg_b))"

definition add :: "cpu \<Rightarrow> result" where
  "add s =
     or_raise s (ram_read s (pc s + 1)) (\<lambda>reg_a.
     or_raise s (ram_read s (pc s + 2)) (\<lambda>reg_b.
     alu s ''ADD'' reg_a reg_b))"

definition mul :: "cpu \<Rightarrow> result" where
  "mul s =
     or_raise s (reg_get s 0) (\<lambda>r0.
     or_raise s (reg_get s 1) (\<lambda>r1.
     or_raise s (reg_set s 0 (r0 * r1)) Inr))"

subsection \<open>Dispatch and the fetch-decode-execute loop\<close>

definition branch_table :: "int \<Rightarrow> (cpu \<Rightarrow> result) option" where
  "branch_table =
     map_of [(HLT, hlt), (LDI, ldi), (PUSH, push), (POP, pop), (PRN, prn), (CALL, call),
             (RET, ret), (JMP, jmp), (JEQ, jeq), (JNE, jne), (CMP, cmp), (ADD, add),
             (MUL, mul)]"

text \<open>One turn of the \<^verbatim>\<open>while True\<close> loop of \<^verbatim>\<open>run\<close>.\<close>

definition step :: "cpu \<Rightarrow> result" where
  "step s =
     or_raise s (ram_read s (pc s)) (\<lambda>b.
     let s1 = s\<lparr>ir := b AND 0x3F\<rparr> in
     case branch_table (ir s1) of
       None \<Rightarrow> Inl (KeyError, s1)
     | Some handler \<Rightarrow>
         (case handler s1 of
            Inl e \<Rightarrow> Inl e
          | Inr s2 \<Rightarrow>
              if ir s2 \<noteq> CALL \<and> ir s2 \<noteq> RET \<and> ir s2 \<noteq> JMP then
                or_raise s2 (ram_read s2 (pc s2)) (\<lambda>b2.
                Inr (s2\<lparr>pc := pc s2 + drop_bit 6 b2 + 1\<rparr>))
              else Inr s2))"

text \<open>
  The loop itself. It ends only when a handler raises (\<open>SystemExit\<close> for HLT); a program
  that never raises runs forever, which is the value \<open>None\<close>.
\<close>

partial_function (option) run :: "cpu \<Rightarrow> (stop \<times> cpu) option" where
  "run s = (case step s of Inl e \<Rightarrow> Some e | Inr s' \<Rightarrow> run s')"

declare run.simps [code]

section \<open>Basic facts\<close>

lemmas opcode_defs =
  HLT_def LDI_def PUSH_def POP_def PRN_def CALL_def RET_def JMP_def JEQ_def JNE_def
  CMP_def ADD_def MUL_def

lemmas access_defs =
  ram_read_def ram_write_def reg_get_def reg_set_def sp_get_def sp_set_def
  py_get_def py_set_def py_index_def

lemmas handler_defs =
  hlt_def ldi_def push_def pop_def prn_def call_def ret_def jmp_def jeq_def jne_def
  cmp_def add_def mul_def alu_def

lemma or_raise_Some [simp]: "or_raise s (Some v) k = k v"
  by (simp add: or_raise_def)

lemma or_raise_None [simp]: "or_raise s None k = Inl (IndexError, s)"
  by (simp add: or_raise_def)

lemma registers_cpu_init: "registers cpu_init = [0, 0, 0, 0, 0, 0, 0, 0xF4]"
  by (simp add: cpu_init_def eval_nat_numeral)

lemma reg_get_fl [simp]: "reg_get (s\<lparr>fl := f\<rparr>) i = reg_get s i"
  by (simp add: reg_get_def)

lemma branch_table_None:
  "k \<notin> {HLT, LDI, PUSH, POP, PRN, CALL, RET, JMP, JEQ, JNE, CMP, ADD, MUL} \<Longrightarrow>
   branch_table k = None"
  by (simp add: branch_table_def)

subsection \<open>Bits of the flags and of a byte\<close>

lemma and255_id: "0 \<le> (r::int) \<Longrightarrow> r \<le> 255 \<Longrightarrow> r AND 255 = r"
proof -
  assume "0 \<le> r" "r \<le> 255"
  then have "take_bit 8 r = r" by (simp add: take_bit_int_eq_self)
  then show ?thesis by (simp add: take_bit_eq_mask mask_eq_exp_minus_1)
qed

lemma flags_eq: "(((f::int) OR 1) AND NOT 2) AND NOT 4 = (f AND NOT 7) OR 1"
  by (rule bit_eqI) (auto simp: bit_simps bit_numeral_rec split: nat.splits)

lemma flags_gt: "(((f::int) AND NOT 1) OR 2) AND NOT 4 = (f AND NOT 7) OR 2"
  by (rule bit_eqI) (auto simp: bit_simps bit_numeral_rec split: nat.splits)

lemma flags_lt: "(((f::int) AND NOT 1) AND NOT 2) OR 4 = (f AND NOT 7) OR 4"
  by (rule bit_eqI) (auto simp: bit_simps bit_numeral_rec split: nat.splits)

lemma low3_1: "((f::int) AND NOT 7 OR 1) AND 7 = 1"
  by (rule bit_eqI) (auto simp: bit_simps bit_numeral_rec split: nat.splits)

lemma low3_2: "((f::int) AND NOT 7 OR 2) AND 7 = 2"
  by (rule bit_eqI) (auto simp: bit_simps bit_numeral_rec split: nat.splits)

lemma low3_4: "((f::int) AND NOT 7 OR 4) AND 7 = 4"
  by (rule bit_eqI) (auto simp: bit_simps bit_numeral_rec split: nat.splits)

subsection \<open>The comparison as one update of the flags\<close>

lemma alu_CMP:
  assumes "reg_get s a = Some va" and "reg_get s b = Some vb"
  shows "alu s ''CMP'' a b =
           Inr (s\<lparr>fl := (fl s AND NOT 7) OR (if va = vb then 1 else if va > vb then 2 else 4)\<rparr>)"
  using assms
  by (simp add: alu_def Let_def flags_eq [simplified] flags_gt [simplified] flags_lt [simplified])

lemma alu_CMP_error:
  assumes "reg_get s a = None \<or> reg_get s b = None"
  shows "alu s ''CMP'' a b = Inl (IndexError, s)"
  using assms by (cases "reg_get s a") (auto simp: alu_def)

section \<open>Illegal instructions\<close>

text \<open>
  Claim C2. A fetched byte whose low six bits are not a key of the branch table, the
  all-zero opcode included, stops the machine: the table lookup raises (Python's
  \<open>KeyError\<close>, the machine's illegal-instruction condition), the error reaches the caller of
  \<open>run\<close>, and the state at that moment differs from the state before the fetch only in the
  instruction register: registers, memory, flags, stack pointer, program counter and output
  are untouched.
\<close>

theorem illegal_instruction_raises:
  assumes "ram_read s (pc s) = Some b"
    and "b AND 0x3F \<notin> {HLT, LDI, PUSH, POP, PRN, CALL, RET, JMP, JEQ, JNE, CMP, ADD, MUL}"
  shows "step s = Inl (KeyError, s\<lparr>ir := b AND 0x3F\<rparr>) \<and>
         run s = Some (KeyError, s\<lparr>ir := b AND 0x3F\<rparr>)"
proof -
  have "step s = Inl (KeyError, s\<lparr>ir := b AND 0x3F\<rparr>)"
    using assms by (simp add: step_def branch_table_None Let_def)
  then show ?thesis by (simp add: run.simps)
qed

theorem illegal_instruction_raises_witness:
  "step cpu_init = Inl (KeyError, cpu_init\<lparr>ir := 0\<rparr>) \<and>
   run cpu_init = Some (KeyError, cpu_init\<lparr>ir := 0\<rparr>)"
  using illegal_instruction_raises [of cpu_init 0]
  by (simp add: cpu_init_def access_defs opcode_defs)

section \<open>The ALU\<close>

text \<open>
  Claim C3, as the code has it. Registers are Python integers and \<open>ADD\<close> adds them without
  any reduction: for register indices \<open>a\<close> and \<open>b\<close> in 0..7 the ALU stores the exact sum of
  registers \<open>a\<close> and \<open>b\<close> into register \<open>a\<close> and changes nothing else. The sum is not taken
  modulo 256.
\<close>

theorem add_stores_exact_sum:
  assumes "length (registers s) = 8" "0 \<le> a" "a < 8" "0 \<le> b" "b < 8"
  shows "alu s ''ADD'' a b =
           Inr (s\<lparr>registers := (registers s)[nat a := registers s ! nat a + registers s ! nat b]\<rparr>)"
  using assms by (simp add: alu_def access_defs)

theorem add_stores_exact_sum_witness:
  "alu (cpu_init\<lparr>registers := [7, 5, 0, 0, 0, 0, 0, 0xF4]\<rparr>) ''ADD'' 0 1 =
     Inr (cpu_init\<lparr>registers := [12, 5, 0, 0, 0, 0, 0, 0xF4]\<rparr>)"
  using add_stores_exact_sum [of "cpu_init\<lparr>registers := [7, 5, 0, 0, 0, 0, 0, 0xF4]\<rparr>" 0 1]
  by simp

text \<open>
  Claim C3 as stated fails: with 200 in register 0 and 100 in register 1, \<open>ADD\<close> leaves 300
  in register 0, which is not below 256.
\<close>

theorem add_no_wrap_counterexample:
  "alu (cpu_init\<lparr>registers := [200, 100, 0, 0, 0, 0, 0, 0xF4]\<rparr>) ''ADD'' 0 1 =
     Inr (cpu_init\<lparr>registers := [300, 100, 0, 0, 0, 0, 0, 0xF4]\<rparr>) \<and> \<not> (300::int) < 256"
  by (simp add: alu_def access_defs)

text \<open>
  Claim C7. When both operand registers can be read, \<open>CMP\<close> succeeds and its whole effect
  is one new value of the flags: the bits above the low three are kept, and the low three
  bits become exactly 1 (Equal) when the registers are equal, exactly 2 (Greater) when the
  first is greater, exactly 4 (Less) otherwise. So exactly one of the three bits is set.
  (When a register cannot be read, \<open>alu_CMP_error\<close> shows that the flags are not touched.)
\<close>

theorem cmp_sets_exactly_one_flag:
  assumes "reg_get s a = Some va" and "reg_get s b = Some vb"
  shows "\<exists>f. alu s ''CMP'' a b = Inr (s\<lparr>fl := f\<rparr>) \<and>
             f AND NOT 7 = fl s AND NOT 7 \<and>
             f AND 7 = (if va = vb then 1 else if va > vb then 2 else 4)"
proof -
  let ?f = "(fl s AND NOT 7) OR (if va = vb then 1 else if va > vb then 2 else 4)"
  have "alu s ''CMP'' a b = Inr (s\<lparr>fl := ?f\<rparr>)"
    using assms by (rule alu_CMP)
  moreover have "?f AND NOT 7 = fl s AND NOT 7"
    by (rule bit_eqI) (auto simp: bit_simps bit_numeral_rec split: nat.splits)
  moreover have "?f AND 7 = (if va = vb then 1 else if va > vb then 2 else 4)"
    using low3_1 [of "fl s"] low3_2 [of "fl s"] low3_4 [of "fl s"] by simp
  ultimately show ?thesis by blast
qed

theorem cmp_sets_exactly_one_flag_witness:
  "\<exists>f. alu (cpu_init\<lparr>registers := [5, 9, 0, 0, 0, 0, 0, 0xF4], fl := 7\<rparr>) ''CMP'' 0 1 =
          Inr (cpu_init\<lparr>registers := [5, 9, 0, 0, 0, 0, 0, 0xF4], fl := f\<rparr>) \<and>
       f AND NOT 7 = 0 \<and> f AND 7 = 4"
  using cmp_sets_exactly_one_flag
    [of "cpu_init\<lparr>registers := [5, 9, 0, 0, 0, 0, 0, 0xF4], fl := 7\<rparr>" 0 5 1 9]
  by (simp add: access_defs)

end
